theory Spec2Isabelle
  imports Main
begin

section \<open>The user service of main.go\<close>

text \<open>
  The program is one Go file: a \<open>User\<close> struct, the function \<open>validateUser\<close> and five
  HTTP handlers registered on an echo router, each issuing one statement against a
  \<open>database/sql\<close> handle. Go's \<open>int\<close> is taken at 64 bits (\<open>strconv.IntSize = 64\<close>);
  the program does no arithmetic on it, so values are HOL integers and the only place
  where the width shows is the clamping of \<open>strconv.Atoi\<close>. A Go \<open>string\<close> is a byte
  sequence, as \<open>string\<close> is here, and \<open>len\<close> is \<open>length\<close>.
\<close>

subsection \<open>Errors and HTTP errors\<close>

datatype num_err = ErrSyntax | ErrRange

text \<open>
  The \<open>error\<close> values the program meets: \<open>*strconv.NumError\<close> with its fields Func, Num
  and Err, \<open>sql.ErrNoRows\<close>, and any other error of the store with its text.
\<close>

datatype error = NumError string string num_err | ErrNoRows | StoreError string

text \<open>
  The message of an \<open>echo.HTTPError\<close>: a string literal of the program, or \<open>err.Error()\<close>
  of an error value, kept symbolic (its text quotes the input with \<open>strconv.Quote\<close>).
\<close>

datatype message = Text string | ErrorText error

datatype HTTPError = NewHTTPError (Code: nat) (Message: message)

abbreviation StatusOK :: nat where "StatusOK \<equiv> 200"
abbreviation StatusNoContent :: nat where "StatusNoContent \<equiv> 204"
abbreviation StatusBadRequest :: nat where "StatusBadRequest \<equiv> 400"
abbreviation StatusNotFound :: nat where "StatusNotFound \<equiv> 404"
abbreviation StatusInternalServerError :: nat where "StatusInternalServerError \<equiv> 500"

subsection \<open>The User struct and its JSON encoding\<close>

record User =
  ID :: int
  Name :: string
  Age :: int

text \<open>
  A JSON value. A \<open>JString\<close> holds the characters of the string as UTF-8 bytes; how
  the encoder escapes them in the text of the body is not part of the value.
\<close>

datatype json = JNull | JNumber int | JString string | JArray "json list"
  | JObject "(string \<times> json) list"

text \<open>
  \<open>c.JSON\<close> encodes with \<open>encoding/json\<close>, which writes a Go string coerced to valid
  UTF-8: it walks the bytes, keeps an ASCII byte, decodes anything else with
  \<open>utf8.DecodeRuneInString\<close>, and writes U+FFFD (the bytes EF BF BD) in place of a byte
  at which no well-formed sequence starts, going on at the next byte.

  \<open>first_byte\<close> is the table \<open>first\<close> of \<open>unicode/utf8\<close> for the bytes from 80 on: the
  size of the sequence a lead byte opens and the range accepted for its second byte.
  \<open>DecodeRuneInString\<close> gives the size of the well-formed sequence at the head of its
  argument, and \<open>None\<close> where Go returns \<open>(RuneError, 1)\<close>.
\<close>

definition in_range :: "char \<Rightarrow> nat \<Rightarrow> nat \<Rightarrow> bool" where
  "in_range c lo hi \<longleftrightarrow> lo \<le> of_char c \<and> of_char c \<le> hi"

definition first_byte :: "char \<Rightarrow> (nat \<times> nat \<times> nat) option" where
  "first_byte c =
     (if in_range c 194 223 then Some (2, 128, 191)
      else if in_range c 224 224 then Some (3, 160, 191)
      else if in_range c 237 237 then Some (3, 128, 159)
      else if in_range c 225 239 then Some (3, 128, 191)
      else if in_range c 240 240 then Some (4, 144, 191)
      else if in_range c 241 243 then Some (4, 128, 191)
      else if in_range c 244 244 then Some (4, 128, 143)
      else None)"

definition DecodeRuneInString :: "string \<Rightarrow> nat option" where
  "DecodeRuneInString s =
     (case s of
        [] \<Rightarrow> None
      | s0 # r \<Rightarrow>
          if in_range s0 0 127 then Some 1
          else
            (case first_byte s0 of
               None \<Rightarrow> None
             | Some (sz, lo, hi) \<Rightarrow>
                 if length s < sz then None
                 else if \<not> in_range (s ! 1) lo hi then None
                 else if sz \<le> 2 then Some 2
                 else if \<not> in_range (s ! 2) 128 191 then None
                 else if sz \<le> 3 then Some 3
                 else if \<not> in_range (s ! 3) 128 191 then None
                 else Some 4))"

definition RuneError :: string where
  "RuneError = [char_of (239 :: nat), char_of (191 :: nat), char_of (189 :: nat)]"

text \<open>
  The loop of the encoder over the bytes of a string. A sequence of \<open>size\<close> bytes
  starting at \<open>b\<close> ends \<open>size - 1\<close> bytes into the rest.
\<close>

function json_string :: "string \<Rightarrow> string" where
  "json_string [] = []"
| "json_string (b # bs) =
     (if in_range b 0 127 then b # json_string bs
      else
        (case DecodeRuneInString (take 4 (b # bs)) of
           None \<Rightarrow> RuneError @ json_string bs
         | Some size' \<Rightarrow> take size' (b # bs) @ json_string (drop (size' - 1) bs)))"
  by pat_completeness auto
termination
  by (relation "measure length") auto

text \<open>The struct tags \<open>json:"id"\<close>, \<open>json:"name"\<close>, \<open>json:"age"\<close>, in field order.\<close>

definition json_of_User :: "User \<Rightarrow> json" where
  "json_of_User u =
     JObject [(''id'', JNumber (ID u)), (''name'', JString (json_string (Name u))),
              (''age'', JNumber (Age u))]"

text \<open>
  A Go slice is nil or holds elements; \<open>encoding/json\<close> writes a nil slice as \<open>null\<close> and
  any other slice, the empty one too, as an array.
\<close>

datatype 'a slice = NilSlice | Slice "'a list"

fun append_slice :: "'a slice \<Rightarrow> 'a \<Rightarrow> 'a slice" where
  "append_slice NilSlice x = Slice [x]"
| "append_slice (Slice xs) x = Slice (xs @ [x])"

fun json_of_Users :: "User slice \<Rightarrow> json" where
  "json_of_Users NilSlice = JNull"
| "json_of_Users (Slice us) = JArray (map json_of_User us)"

subsection \<open>Requests and responses\<close>

text \<open>
  What a handler reads from \<open>echo.Context\<close>: path parameters and form values, each the
  empty string when absent.
\<close>

record request =
  params :: "(string \<times> string) list"
  form :: "(string \<times> string) list"

definition Param :: "request \<Rightarrow> string \<Rightarrow> string" where
  "Param c k = (case map_of (params c) k of None \<Rightarrow> [] | Some v \<Rightarrow> v)"

definition FormValue :: "request \<Rightarrow> string \<Rightarrow> string" where
  "FormValue c k = (case map_of (form c) k of None \<Rightarrow> [] | Some v \<Rightarrow> v)"

text \<open>
  What a handler produces: a returned \<open>*echo.HTTPError\<close>, \<open>c.JSON(code, v)\<close> or
  \<open>c.NoContent(code)\<close>, which writes the status and no body.
\<close>

datatype response = Failed HTTPError | JSON nat json | NoContent nat

fun status_code :: "response \<Rightarrow> nat" where
  "status_code (Failed e) = Code e"
| "status_code (JSON code v) = code"
| "status_code (NoContent code) = code"

subsection \<open>strconv.Atoi\<close>

text \<open>
  \<open>strconv.Atoi(s)\<close> is \<open>ParseInt(s, 10, 0)\<close> converted to \<open>int\<close>, with Func set to
  \<open>Atoi\<close> in the error. The three functions follow the standard library for base 10 and
  64 bits: \<open>ParseUint\<close> accumulates in a \<open>uint64\<close> and stops at the first byte that is
  not a digit (syntax error, value 0) or at the first overflow (range error, value
  \<open>maxVal\<close>); \<open>ParseInt\<close> takes the sign off and clamps at the bounds of \<open>int64\<close>.
\<close>

definition maxVal :: nat where
  "maxVal = 2 ^ 64 - 1"

definition cutoff :: nat where
  "cutoff = maxVal div 10 + 1"

definition is_digit :: "char \<Rightarrow> bool" where
  "is_digit c \<longleftrightarrow> (48 :: nat) \<le> of_char c \<and> of_char c \<le> (57 :: nat)"

fun ParseUint_loop :: "nat \<Rightarrow> string \<Rightarrow> nat \<times> num_err option" where
  "ParseUint_loop n [] = (n, None)"
| "ParseUint_loop n (c # cs) =
     (if is_digit c then
        (let d = of_char c - (48 :: nat) in
         if n \<ge> cutoff then (maxVal, Some ErrRange)
         else
           (let n' = n * 10; n1 = (n' + d) mod 2 ^ 64 in
            if n1 < n' \<or> n1 > maxVal then (maxVal, Some ErrRange)
            else ParseUint_loop n1 cs))
      else (0, Some ErrSyntax))"

definition ParseUint :: "string \<Rightarrow> nat \<times> num_err option" where
  "ParseUint s = (if s = [] then (0, Some ErrSyntax) else ParseUint_loop 0 s)"

definition ParseInt :: "string \<Rightarrow> int \<times> num_err option" where
  "ParseInt s =
     (case s of
        [] \<Rightarrow> (0, Some ErrSyntax)
      | c # cs \<Rightarrow>
          (let neg = (c = CHR ''-'');
               s' = (if c = CHR ''+'' then cs else if c = CHR ''-'' then cs else s)
           in case ParseUint s' of
                (un, Some ErrSyntax) \<Rightarrow> (0, Some ErrSyntax)
              | (un, _) \<Rightarrow>
                  if \<not> neg \<and> un \<ge> 2 ^ 63 then (2 ^ 63 - 1, Some ErrRange)
                  else if neg \<and> un > 2 ^ 63 then (- (2 ^ 63), Some ErrRange)
                  else (if neg then - int un else int un, None)))"

definition Atoi :: "string \<Rightarrow> int \<times> error option" where
  "Atoi s =
     (case ParseInt s of
        (i, None) \<Rightarrow> (i, None)
      | (i, Some e) \<Rightarrow> (i, Some (NumError ''Atoi'' s e)))"

subsection \<open>validateUser\<close>

definition validateUser :: "string \<Rightarrow> int \<Rightarrow> HTTPError option" where
  "validateUser name age =
     (if name = [] then Some (NewHTTPError StatusBadRequest (Text ''name is empty''))
      else if length name > 100 then Some (NewHTTPError StatusBadRequest (Text ''name is too long''))
      else if age < 0 \<or> age \<ge> 200 then
        Some (NewHTTPError StatusBadRequest (Text ''age must be between 0 and 200''))
      else None)"

subsection \<open>The database handle\<close>

text \<open>
  The handle \<open>db\<close> of \<open>database/sql\<close> is a parameter of the handlers: \<open>Exec\<close> runs a
  statement with its bound arguments on the store and returns an error or a result
  (\<open>LastInsertId\<close>, \<open>RowsAffected\<close>), \<open>Query\<close> returns an error or the rows that
  \<open>rows.Next()\<close> yields, each as what \<open>rows.Scan\<close> into a \<open>User\<close> gives for it.
  A query reads the store and leaves it as it is. A result carries the two values
  that \<open>LastInsertId()\<close> and \<open>RowsAffected()\<close> return; the handlers drop the errors of
  both calls, and \<open>int(id)\<close> of an \<open>int64\<close> is the same number at 64 bits.
  A world is the store together with the list of statements issued so far.
\<close>

datatype arg = S string | I int

record Result =
  LastInsertId :: int
  RowsAffected :: int

record 's DB =
  Exec :: "string \<Rightarrow> arg list \<Rightarrow> 's \<Rightarrow> (error + Result) \<times> 's"
  Query :: "string \<Rightarrow> arg list \<Rightarrow> 's \<Rightarrow> error + (error + User) list"

record 's world =
  store :: 's
  issued :: "(string \<times> arg list) list"

definition db_Exec ::
  "'s DB \<Rightarrow> string \<Rightarrow> arg list \<Rightarrow> 's world \<Rightarrow> (error + Result) \<times> 's world" where
  "db_Exec db q args w =
     (case Exec db q args (store w) of
        (r, s') \<Rightarrow> (r, \<lparr>store = s', issued = issued w @ [(q, args)]\<rparr>))"

definition db_Query ::
  "'s DB \<Rightarrow> string \<Rightarrow> arg list \<Rightarrow> 's world \<Rightarrow> (error + (error + User) list) \<times> 's world" where
  "db_Query db q args w =
     (Query db q args (store w), \<lparr>store = store w, issued = issued w @ [(q, args)]\<rparr>)"

text \<open>
  \<open>db.QueryRow(q, args).Scan(...)\<close>: the error of the query if it failed, \<open>ErrNoRows\<close>
  if it selected no row, otherwise the scan of the first row; the rest is discarded.
\<close>

definition db_QueryRow_Scan ::
  "'s DB \<Rightarrow> string \<Rightarrow> arg list \<Rightarrow> 's world \<Rightarrow> (error + User) \<times> 's world" where
  "db_QueryRow_Scan db q args w =
     (case db_Query db q args w of
        (Inl err, w') \<Rightarrow> (Inl err, w')
      | (Inr [], w') \<Rightarrow> (Inl ErrNoRows, w')
      | (Inr (r # rs), w') \<Rightarrow> (r, w'))"

subsection \<open>The handlers\<close>

definition DELETE_user :: "'s DB \<Rightarrow> request \<Rightarrow> 's world \<Rightarrow> response \<times> 's world" where
  "DELETE_user db c w =
     (case Atoi (Param c ''id'') of
        (id', Some err) \<Rightarrow>
          (Failed (NewHTTPError StatusInternalServerError (ErrorText err)), w)
      | (id', None) \<Rightarrow>
          (case db_Exec db ''DELETE FROM users WHERE id = ?'' [I id'] w of
             (Inl err, w') \<Rightarrow>
               (Failed (NewHTTPError StatusInternalServerError (ErrorText err)), w')
           | (Inr result, w') \<Rightarrow>
               if RowsAffected result = 0
               then (Failed (NewHTTPError StatusNotFound (Text ''Not Found'')), w')
               else (NoContent StatusNoContent, w')))"


definition PUT_user :: "'s DB \<Rightarrow> request \<Rightarrow> 's world \<Rightarrow> response \<times> 's world" where
  "PUT_user db c w =
     (case Atoi (Param c ''id'') of
        (id', Some err) \<Rightarrow>
          (Failed (NewHTTPError StatusInternalServerError (ErrorText err)), w)
      | (id', None) \<Rightarrow>
          (let name = FormValue c ''name'' in
           case Atoi (FormValue c ''age'') of
             (age, Some err) \<Rightarrow>
               (Failed (NewHTTPError StatusInternalServerError (ErrorText err)), w)
           | (age, None) \<Rightarrow>
               (case validateUser name age of
                  Some err \<Rightarrow> (Failed err, w)
                | None \<Rightarrow>
                    (case db_Exec db ''UPDATE users SET name = ?, age = ? WHERE id = ?''
                            [S name, I age, I id'] w of
                       (Inl err, w') \<Rightarrow>
                         (Failed (NewHTTPError StatusInternalServerError (ErrorText err)), w')
                     | (Inr result, w') \<Rightarrow>
                         if RowsAffected result = 0
                         then (Failed (NewHTTPError StatusNotFound (Text ''Not Found'')), w')
                         else (JSON StatusOK
                                 (json_of_User \<lparr>ID = id', Name = name, Age = age\<rparr>), w')))))"

text \<open>
  The loop \<open>for rows.Next() { rows.Scan(...); users = append(users, user) }\<close>: the first
  scan that fails ends the handler with its error.
\<close>

fun scan_rows :: "(error + User) list \<Rightarrow> User slice \<Rightarrow> error + User slice" where
  "scan_rows [] users = Inr users"
| "scan_rows (Inl err # rows) users = Inl err"
| "scan_rows (Inr user # rows) users = scan_rows rows (append_slice users user)"

definition GET_users :: "'s DB \<Rightarrow> request \<Rightarrow> 's world \<Rightarrow> response \<times> 's world" where
  "GET_users db c w =
     (case db_Query db ''SELECT id, name, age FROM users'' [] w of
        (Inl err, w') \<Rightarrow>
          (Failed (NewHTTPError StatusInternalServerError (ErrorText err)), w')
      | (Inr rows, w') \<Rightarrow>
          (case scan_rows rows (Slice []) of
             Inl err \<Rightarrow> (Failed (NewHTTPError StatusInternalServerError (ErrorText err)), w')
           | Inr users \<Rightarrow> (JSON StatusOK (json_of_Users users), w')))"

definition GET_user :: "'s DB \<Rightarrow> request \<Rightarrow> 's world \<Rightarrow> response \<times> 's world" where
  "GET_user db c w =
     (case Atoi (Param c ''id'') of
        (id', Some err) \<Rightarrow>
          (Failed (NewHTTPError StatusInternalServerError (ErrorText err)), w)
      | (id', None) \<Rightarrow>
          (case db_QueryRow_Scan db ''SELECT id, name, age FROM users WHERE id = ?'' [I id'] w of
             (Inl err, w') \<Rightarrow>
               (Failed (NewHTTPError StatusInternalServerError (ErrorText err)), w')
           | (Inr user, w') \<Rightarrow> (JSON StatusOK (json_of_User user), w')))"

subsection \<open>A store to run the handlers on\<close>

text \<open>
  The table of the schema in the comment at the end of \<open>main\<close>
  (\<open>id INTEGER PRIMARY KEY AUTOINCREMENT, name TEXT NOT NULL, age INTEGER NOT NULL\<close>),
  as a list of rows and the largest id given out so far. It answers the five statements
  of the handlers and refuses any other. The theorems below hold for every handle;
  this one gives them concrete inputs.
\<close>

record table =
  rows :: "User list"
  seq :: int

definition table_Exec :: "string \<Rightarrow> arg list \<Rightarrow> table \<Rightarrow> (error + Result) \<times> table" where
  "table_Exec q args t =
     (if q = ''INSERT INTO users(name, age) VALUES(?, ?)'' then
        (case args of
           [S name, I age] \<Rightarrow>
             (Inr \<lparr>LastInsertId = seq t + 1, RowsAffected = 1\<rparr>,
              \<lparr>rows = rows t @ [\<lparr>ID = seq t + 1, Name = name, Age = age\<rparr>], seq = seq t + 1\<rparr>)
         | _ \<Rightarrow> (Inl (StoreError ''wrong arguments''), t))
      else if q = ''UPDATE users SET name = ?, age = ? WHERE id = ?'' then
        (case args of
           [S name, I age, I id'] \<Rightarrow>
             (Inr \<lparr>LastInsertId = seq t,
                   RowsAffected = int (length (filter (\<lambda>u. ID u = id') (rows t)))\<rparr>,
              \<lparr>rows = map (\<lambda>u. if ID u = id' then \<lparr>ID = id', Name = name, Age = age\<rparr> else u)
                        (rows t),
               seq = seq t\<rparr>)
         | _ \<Rightarrow> (Inl (StoreError ''wrong arguments''), t))
      else if q = ''DELETE FROM users WHERE id = ?'' then
        (case args of
           [I id'] \<Rightarrow>
             (Inr \<lparr>LastInsertId = seq t,
                   RowsAffected = int (length (filter (\<lambda>u. ID u = id') (rows t)))\<rparr>,
              \<lparr>rows = filter (\<lambda>u. ID u \<noteq> id') (rows t), seq = seq t\<rparr>)
         | _ \<Rightarrow> (Inl (StoreError ''wrong arguments''), t))
      else (Inl (StoreError ''unknown statement''), t))"

definition table_Query :: "string \<Rightarrow> arg list \<Rightarrow> table \<Rightarrow> error + (error + User) list" where
  "table_Query q args t =
     (if q = ''SELECT id, name, age FROM users'' then Inr (map Inr (rows t))
      else if q = ''SELECT id, name, age FROM users WHERE id = ?'' then
        (case args of
           [I id'] \<Rightarrow> Inr (map Inr (filter (\<lambda>u. ID u = id') (rows t)))
         | _ \<Rightarrow> Inl (StoreError ''wrong arguments''))
      else Inl (StoreError ''unknown statement''))"

definition table_DB :: "table DB" where
  "table_DB = \<lparr>Exec = table_Exec, Query = table_Query\<rparr>"

definition empty_world :: "table world" where
  "empty_world = \<lparr>store = \<lparr>rows = [], seq = 0\<rparr>, issued = []\<rparr>"

definition alice_world :: "table world" where
  "alice_world = \<lparr>store = \<lparr>rows = [\<lparr>ID = 1, Name = ''Alice'', Age = 30\<rparr>], seq = 1\<rparr>, issued = []\<rparr>"

subsection \<open>Characters of a name\<close>

text \<open>
  The specification counts the characters of a name; the program counts bytes. The
  characters of a byte string are the code points of its UTF-8 encoding, counted here
  by a scan that accepts the well-formed byte sequences of the Unicode standard (one to
  four bytes, no overlong forms, no surrogates, nothing above U+10FFFF) and gives
  \<open>None\<close> on any other input. \<open>pending\<close> is the number of continuation bytes still due,
  \<open>lo\<close> and \<open>hi\<close> bound the next one.
\<close>

fun utf8_count :: "nat \<Rightarrow> nat \<Rightarrow> nat \<Rightarrow> nat list \<Rightarrow> nat option" where
  "utf8_count pending lo hi [] = (if pending = 0 then Some 0 else None)"
| "utf8_count pending lo hi (b # bs) =
     (if pending = 0 then
        (if b < 128 then map_option Suc (utf8_count 0 128 191 bs)
         else if 194 \<le> b \<and> b \<le> 223 then map_option Suc (utf8_count 1 128 191 bs)
         else if b = 224 then map_option Suc (utf8_count 2 160 191 bs)
         else if b = 237 then map_option Suc (utf8_count 2 128 159 bs)
         else if 225 \<le> b \<and> b \<le> 239 then map_option Suc (utf8_count 2 128 191 bs)
         else if b = 240 then map_option Suc (utf8_count 3 144 191 bs)
         else if 241 \<le> b \<and> b \<le> 243 then map_option Suc (utf8_count 3 128 191 bs)
         else if b = 244 then map_option Suc (utf8_count 3 128 143 bs)
         else None)
      else if lo \<le> b \<and> b \<le> hi then utf8_count (pending - 1) 128 191 bs
      else None)"

definition char_count :: "string \<Rightarrow> nat option" where
  "char_count s = utf8_count 0 128 191 (map of_char s)"

text \<open>The letter e with an acute accent, U+00E9: the two bytes C3 A9.\<close>

definition e_acute :: string where
  "e_acute = [char_of (195 :: nat), char_of (169 :: nat)]"

section \<open>Properties\<close>

subsection \<open>Evaluation rules and facts about strconv.Atoi\<close>

lemmas Atoi_eval = Atoi_def ParseInt_def ParseUint_def is_digit_def maxVal_def cutoff_def

lemmas table_eval = Let_def table_DB_def table_Exec_def table_Query_def empty_world_def alice_world_def






lemma Atoi_examples:
  "Atoi ''30'' = (30, None)"
  "Atoi ''-5'' = (- 5, None)"
  "Atoi ''+7'' = (7, None)"
  "Atoi [] = (0, Some (NumError ''Atoi'' [] ErrSyntax))"
  "Atoi ''-'' = (0, Some (NumError ''Atoi'' ''-'' ErrSyntax))"
  "Atoi ''3x'' = (0, Some (NumError ''Atoi'' ''3x'' ErrSyntax))"
  "Atoi ''9223372036854775807'' = (9223372036854775807, None)"
  "Atoi ''-9223372036854775808'' = (- 9223372036854775808, None)"
  "Atoi ''-9223372036854775809'' =
     (- 9223372036854775808, Some (NumError ''Atoi'' ''-9223372036854775809'' ErrRange))"
  by (simp_all add: Atoi_eval)

text \<open>A string of \<open>n\<close> two-byte characters has \<open>n\<close> characters.\<close>

lemma utf8_count_two_bytes:
  "utf8_count 0 128 191 (concat (replicate n [195, 169])) = Some n"
  by (induction n) simp_all

lemma char_count_e_acute: "char_count (concat (replicate n e_acute)) = Some n"
  using utf8_count_two_bytes [of n]
  by (simp add: char_count_def e_acute_def map_concat)


lemma json_string_examples:
  "json_string ''Bob'' = ''Bob''"
  "json_string [char_of (255 :: nat)] = RuneError"
  "json_string [char_of (195 :: nat), char_of (169 :: nat)] = [char_of (195 :: nat), char_of (169 :: nat)]"
  "json_string [char_of (226 :: nat), char_of (130 :: nat)] = RuneError @ RuneError"
  "json_string [char_of (226 :: nat), CHR ''A''] = RuneError @ ''A''"
  "json_string RuneError = RuneError"
  "json_string [char_of (237 :: nat), char_of (160 :: nat), char_of (128 :: nat)] = RuneError @ RuneError @ RuneError"
  "json_string [char_of (240 :: nat), char_of (159 :: nat), char_of (152 :: nat), char_of (128 :: nat), CHR ''x'']
     = [char_of (240 :: nat), char_of (159 :: nat), char_of (152 :: nat), char_of (128 :: nat), CHR ''x'']"
  by (simp_all add: DecodeRuneInString_def first_byte_def in_range_def RuneError_def)










text \<open>The scan loop of ReadAll keeps every row, in order, unless a scan fails.\<close>

lemma scan_rows_all:
  "scan_rows (map Inr us) (Slice acc) = Inr (Slice (acc @ us))"
  by (induction us arbitrary: acc) simp_all

lemma scan_rows_Inr:
  "scan_rows rs (Slice acc) = Inr users \<Longrightarrow> \<exists>us. rs = map Inr us \<and> users = Slice (acc @ us)"
proof (induction rs arbitrary: acc)
  case Nil
  then show ?case by simp
next
  case (Cons r rs)
  show ?case
  proof (cases r)
    case (Inl err)
    with Cons.prems show ?thesis by simp
  next
    case (Inr user)
    with Cons.prems have "scan_rows rs (Slice (acc @ [user])) = Inr users" by simp
    from Cons.IH [OF this] obtain us where "rs = map Inr us" "users = Slice ((acc @ [user]) @ us)"
      by blast
    with Inr have "r # rs = map Inr (user # us) \<and> users = Slice (acc @ (user # us))" by simp
    then show ?thesis by (rule exI [of _ "user # us"])
  qed
qed

subsection \<open>validateUser\<close>

text \<open>
  C1. \<open>validateUser\<close> accepts a pair (name, age) exactly when the length of the name
  (\<open>len\<close>, its bytes) is between 1 and 100 and the age is at least 0 and below 200.
  Every other pair is rejected with status 400 and the message of the first rule it
  breaks, in the order: empty name, name longer than 100, age out of range. An
  over-length name is reported as such whatever the age is, so violations are not
  collected.
\<close>

theorem validateUser_accepts_iff:
  "(validateUser name age = None \<longleftrightarrow>
      1 \<le> length name \<and> length name \<le> 100 \<and> 0 \<le> age \<and> age < 200)
   \<and> (length name = 0 \<longrightarrow>
        validateUser name age = Some (NewHTTPError 400 (Text ''name is empty'')))
   \<and> (length name > 100 \<longrightarrow>
        validateUser name age = Some (NewHTTPError 400 (Text ''name is too long'')))
   \<and> (1 \<le> length name \<and> length name \<le> 100 \<and> (age < 0 \<or> age \<ge> 200) \<longrightarrow>
        validateUser name age = Some (NewHTTPError 400 (Text ''age must be between 0 and 200'')))"
  by (cases name) (auto simp: validateUser_def)

theorem validateUser_accepts_iff_witness:
  "validateUser ''Alice'' 30 = None
   \<and> validateUser [] 300 = Some (NewHTTPError 400 (Text ''name is empty''))
   \<and> validateUser (replicate 101 CHR ''a'') 300 = Some (NewHTTPError 400 (Text ''name is too long''))
   \<and> validateUser ''Bob'' 200 = Some (NewHTTPError 400 (Text ''age must be between 0 and 200''))"
  using validateUser_accepts_iff [of "''Alice''" 30]
    validateUser_accepts_iff [of "[]" 300]
    validateUser_accepts_iff [of "replicate 101 CHR ''a''" 300]
    validateUser_accepts_iff [of "''Bob''" 200]
  by simp

subsection \<open>Create: POST /users\<close>




subsection \<open>Update: PUT /users/:id\<close>






subsection \<open>Delete: DELETE /users/:id\<close>

text \<open>
  C5. For a Delete request whose id parses and whose DELETE statement succeeds: the
  response is 404 when no row was affected, and otherwise 204 through \<open>c.NoContent\<close>,
  which carries no body.
\<close>

theorem DELETE_user_status:
  assumes "Atoi (Param c ''id'') = (i, None)"
    and "Exec db ''DELETE FROM users WHERE id = ?'' [I i] (store w) = (Inr r, s')"
  shows "(RowsAffected r = 0 \<longrightarrow>
            fst (DELETE_user db c w) = Failed (NewHTTPError 404 (Text ''Not Found'')))
       \<and> (RowsAffected r \<noteq> 0 \<longrightarrow> fst (DELETE_user db c w) = NoContent 204)"
  using assms by (simp add: DELETE_user_def db_Exec_def)

theorem DELETE_user_status_witness:
  "DELETE_user table_DB \<lparr>params = [(''id'', ''1'')], form = []\<rparr> alice_world =
     (NoContent 204,
      \<lparr>store = \<lparr>rows = [], seq = 1\<rparr>, issued = [(''DELETE FROM users WHERE id = ?'', [I 1])]\<rparr>)
   \<and> fst (DELETE_user table_DB \<lparr>params = [(''id'', ''1'')], form = []\<rparr>
          \<lparr>store = \<lparr>rows = [], seq = 1\<rparr>, issued = [(''DELETE FROM users WHERE id = ?'', [I 1])]\<rparr>)
     = Failed (NewHTTPError 404 (Text ''Not Found''))"
  using
    DELETE_user_status [of "\<lparr>params = [(''id'', ''1'')], form = []\<rparr>" 1 table_DB alice_world
      "\<lparr>LastInsertId = 1, RowsAffected = 1\<rparr>" "\<lparr>rows = [], seq = 1\<rparr>"]
    DELETE_user_status [of "\<lparr>params = [(''id'', ''1'')], form = []\<rparr>" 1 table_DB
      "\<lparr>store = \<lparr>rows = [], seq = 1\<rparr>, issued = [(''DELETE FROM users WHERE id = ?'', [I 1])]\<rparr>"
      "\<lparr>LastInsertId = 1, RowsAffected = 0\<rparr>" "\<lparr>rows = [], seq = 1\<rparr>"]
  by (simp add: DELETE_user_def db_Exec_def Param_def Atoi_eval table_eval)

subsection \<open>ReadOne: GET /users/:id\<close>



subsection \<open>ReadAll: GET /users\<close>

text \<open>
  C7. When the query yields no row the response of ReadAll is 200 with the empty JSON
  array, not \<open>null\<close>: the slice starts as \<open>[]User{}\<close>, not as nil. When every row scans,
  the array holds the rows in order; and whenever ReadAll answers with a JSON body, the
  status is 200 and the body is an array with one element for each row the query
  yielded.
\<close>

theorem GET_users_array:
  "(Query db ''SELECT id, name, age FROM users'' [] (store w) = Inr [] \<longrightarrow>
      fst (GET_users db c w) = JSON 200 (JArray [])
      \<and> fst (GET_users db c w) \<noteq> JSON 200 JNull)
   \<and> (Query db ''SELECT id, name, age FROM users'' [] (store w) = Inr (map Inr us) \<longrightarrow>
      fst (GET_users db c w) = JSON 200 (JArray (map json_of_User us)))
   \<and> (Query db ''SELECT id, name, age FROM users'' [] (store w) = Inr rs
        \<and> fst (GET_users db c w) = JSON code body \<longrightarrow>
      code = 200 \<and> (\<exists>xs. body = JArray xs \<and> length xs = length rs))"
proof (intro conjI impI)
  assume "Query db ''SELECT id, name, age FROM users'' [] (store w) = Inr []"
  then show "fst (GET_users db c w) = JSON 200 (JArray [])"
    and "fst (GET_users db c w) \<noteq> JSON 200 JNull"
    by (simp_all add: GET_users_def db_Query_def)
next
  assume "Query db ''SELECT id, name, age FROM users'' [] (store w) = Inr (map Inr us)"
  then show "fst (GET_users db c w) = JSON 200 (JArray (map json_of_User us))"
    by (simp add: GET_users_def db_Query_def scan_rows_all)
next
  assume a: "Query db ''SELECT id, name, age FROM users'' [] (store w) = Inr rs
        \<and> fst (GET_users db c w) = JSON code body"
  then obtain users where u: "scan_rows rs (Slice []) = Inr users"
    and r: "code = 200" "body = json_of_Users users"
    by (auto simp: GET_users_def db_Query_def split: sum.splits)
  from scan_rows_Inr [OF u] obtain us where "rs = map Inr us" "users = Slice us" by auto
  with r show "code = 200" and "\<exists>xs. body = JArray xs \<and> length xs = length rs"
    by simp_all
qed

theorem GET_users_array_witness:
  "fst (GET_users table_DB \<lparr>params = [], form = []\<rparr> empty_world) = JSON 200 (JArray [])
   \<and> fst (GET_users table_DB \<lparr>params = [], form = []\<rparr> alice_world)
       = JSON 200 (JArray [json_of_User \<lparr>ID = 1, Name = ''Alice'', Age = 30\<rparr>])"
  using
    GET_users_array [of table_DB empty_world "\<lparr>params = [], form = []\<rparr>" "[]" "[]" 200 "JArray []"]
    GET_users_array [of table_DB alice_world "\<lparr>params = [], form = []\<rparr>"
      "[\<lparr>ID = 1, Name = ''Alice'', Age = 30\<rparr>]" "[Inr \<lparr>ID = 1, Name = ''Alice'', Age = 30\<rparr>]" 200
      "JArray [json_of_User \<lparr>ID = 1, Name = ''Alice'', Age = 30\<rparr>]"]
  by (simp add: table_eval)

subsection \<open>Parse failures\<close>

text \<open>
  C8. When the id path parameter does not parse, ReadOne, Update and Delete each answer
  500 with the message of the error of \<open>Atoi\<close>. When the id parses and the age form
  value of an Update does not, the answer is 500 with the message of that error. An
  Update whose age does not parse answers 500, never 400, whatever its id is.
\<close>

theorem parse_failure_is_500:
  "(snd (Atoi (Param c ''id'')) = Some e \<longrightarrow>
      fst (GET_user db c w) = Failed (NewHTTPError 500 (ErrorText e))
      \<and> fst (PUT_user db c w) = Failed (NewHTTPError 500 (ErrorText e))
      \<and> fst (DELETE_user db c w) = Failed (NewHTTPError 500 (ErrorText e)))
   \<and> (snd (Atoi (Param c ''id'')) = None \<and> snd (Atoi (FormValue c ''age'')) = Some e \<longrightarrow>
      fst (PUT_user db c w) = Failed (NewHTTPError 500 (ErrorText e)))
   \<and> (snd (Atoi (FormValue c ''age'')) = Some e \<longrightarrow>
      status_code (fst (PUT_user db c w)) = 500
      \<and> status_code (fst (PUT_user db c w)) \<noteq> 400)"
  by (auto simp: GET_user_def PUT_user_def DELETE_user_def Let_def split: prod.splits option.splits)

theorem parse_failure_is_500_witness:
  "fst (GET_user table_DB \<lparr>params = [(''id'', ''x1'')], form = []\<rparr> alice_world)
     = Failed (NewHTTPError 500 (ErrorText (NumError ''Atoi'' ''x1'' ErrSyntax)))
   \<and> fst (DELETE_user table_DB \<lparr>params = [(''id'', ''x1'')], form = []\<rparr> alice_world)
     = Failed (NewHTTPError 500 (ErrorText (NumError ''Atoi'' ''x1'' ErrSyntax)))
   \<and> fst (PUT_user table_DB \<lparr>params = [(''id'', ''x1'')], form = []\<rparr> alice_world)
     = Failed (NewHTTPError 500 (ErrorText (NumError ''Atoi'' ''x1'' ErrSyntax)))
   \<and> fst (PUT_user table_DB
          \<lparr>params = [(''id'', ''1'')], form = [(''name'', ''Bob''), (''age'', ''3 1'')]\<rparr> alice_world)
     = Failed (NewHTTPError 500 (ErrorText (NumError ''Atoi'' ''3 1'' ErrSyntax)))"
  using
    parse_failure_is_500 [of "\<lparr>params = [(''id'', ''x1'')], form = []\<rparr>"
      "NumError ''Atoi'' ''x1'' ErrSyntax" table_DB alice_world]
    parse_failure_is_500 [of
      "\<lparr>params = [(''id'', ''1'')], form = [(''name'', ''Bob''), (''age'', ''3 1'')]\<rparr>"
      "NumError ''Atoi'' ''3 1'' ErrSyntax" table_DB alice_world]
  by (simp add: Param_def FormValue_def Atoi_eval)

text \<open>
  C9. An Update whose id does not parse, whose age does not parse, or whose name and
  age \<open>validateUser\<close> rejects, returns before any statement is issued: the store and
  the list of issued statements are what they were, and the status is 400 or 500.
\<close>

theorem PUT_user_failure_leaves_store:
  assumes "snd (Atoi (Param c ''id'')) \<noteq> None
         \<or> snd (Atoi (FormValue c ''age'')) \<noteq> None
         \<or> validateUser (FormValue c ''name'') (fst (Atoi (FormValue c ''age''))) \<noteq> None"
  shows "snd (PUT_user db c w) = w
       \<and> store (snd (PUT_user db c w)) = store w
       \<and> issued (snd (PUT_user db c w)) = issued w
       \<and> status_code (fst (PUT_user db c w)) \<in> {400, 500}"
proof -
  have v: "validateUser n a = Some e \<Longrightarrow> Code e = 400" for n a e
    by (auto simp: validateUser_def split: if_splits)
  show ?thesis
    using assms
    by (auto simp: PUT_user_def Let_def v split: prod.splits option.splits)
qed

theorem PUT_user_failure_leaves_store_witness:
  "snd (PUT_user table_DB
          \<lparr>params = [(''id'', ''1'')], form = [(''name'', []), (''age'', ''31'')]\<rparr> alice_world)
     = alice_world
   \<and> snd (PUT_user table_DB
          \<lparr>params = [(''id'', ''one'')], form = [(''name'', ''Bob''), (''age'', ''31'')]\<rparr> alice_world)
     = alice_world
   \<and> snd (PUT_user table_DB
          \<lparr>params = [(''id'', ''1'')], form = [(''name'', ''Bob''), (''age'', [])]\<rparr> alice_world)
     = alice_world
   \<and> snd (PUT_user table_DB
          \<lparr>params = [(''id'', ''1'')], form = [(''name'', ''Bob''), (''age'', ''31'')]\<rparr> alice_world)
     \<noteq> alice_world"
  using
    PUT_user_failure_leaves_store [of
      "\<lparr>params = [(''id'', ''1'')], form = [(''name'', []), (''age'', ''31'')]\<rparr>" table_DB alice_world]
    PUT_user_failure_leaves_store [of
      "\<lparr>params = [(''id'', ''one'')], form = [(''name'', ''Bob''), (''age'', ''31'')]\<rparr>" table_DB
      alice_world]
    PUT_user_failure_leaves_store [of
      "\<lparr>params = [(''id'', ''1'')], form = [(''name'', ''Bob''), (''age'', [])]\<rparr>" table_DB alice_world]
  by (simp add: PUT_user_def db_Exec_def Param_def FormValue_def Atoi_eval table_eval validateUser_def)

subsection \<open>Bytes and characters\<close>

text \<open>
  C10. The length check of \<open>validateUser\<close> is on bytes. The name made of 51 letters
  U+00E9 has 51 characters and 102 bytes, and is rejected as too long whatever the age.
  A name is rejected as too long exactly when it has more than 100 bytes: no name of
  at most 100 bytes is, and every name of more is.
\<close>

theorem name_length_counts_bytes:
  "char_count (concat (replicate 51 e_acute)) = Some 51
   \<and> length (concat (replicate 51 e_acute)) = 102
   \<and> validateUser (concat (replicate 51 e_acute)) age
       = Some (NewHTTPError 400 (Text ''name is too long''))
   \<and> (length name \<le> 100 \<longrightarrow>
        validateUser name age \<noteq> Some (NewHTTPError 400 (Text ''name is too long'')))
   \<and> (length name > 100 \<longrightarrow>
        validateUser name age = Some (NewHTTPError 400 (Text ''name is too long'')))"
proof -
  have len: "length (concat (replicate 51 e_acute)) = 102"
    by (simp add: e_acute_def length_concat sum_list_replicate)
  have "validateUser (concat (replicate 51 e_acute)) age
       = Some (NewHTTPError 400 (Text ''name is too long''))"
    using len by (auto simp: validateUser_def)
  moreover have "length name \<le> 100 \<longrightarrow>
        validateUser name age \<noteq> Some (NewHTTPError 400 (Text ''name is too long''))"
    by (simp add: validateUser_def)
  moreover have "length name > 100 \<longrightarrow>
        validateUser name age = Some (NewHTTPError 400 (Text ''name is too long''))"
    by (auto simp: validateUser_def)
  ultimately show ?thesis
    using len char_count_e_acute [of 51] by blast
qed

theorem name_length_counts_bytes_witness:
  "validateUser (concat (replicate 51 e_acute)) 30 = Some (NewHTTPError 400 (Text ''name is too long''))
   \<and> validateUser (replicate 100 CHR ''a'') 30 = None
   \<and> validateUser (replicate 101 CHR ''a'') 30 = Some (NewHTTPError 400 (Text ''name is too long''))"
  using name_length_counts_bytes [of 30 "replicate 100 CHR ''a''"]
    name_length_counts_bytes [of 30 "replicate 101 CHR ''a''"]
  by (simp add: validateUser_def)

end
